theory Spec2Isabelle
  imports Complex_Main
begin

section \<open>Data model\<close>

text \<open>
  The checker of \<^verbatim>\<open>scripts/data_quality_ckeck.py\<close> works on the values that
  \<^verbatim>\<open>json.loads\<close> produces: \<^verbatim>\<open>None\<close>, \<^verbatim>\<open>bool\<close>, \<^verbatim>\<open>int\<close> (unbounded),
  \<^verbatim>\<open>float\<close>, \<^verbatim>\<open>str\<close>, \<^verbatim>\<open>list\<close> and \<^verbatim>\<open>dict\<close>. A Python \<^verbatim>\<open>dict\<close> keeps insertion
  order, and the code iterates over \<^verbatim>\<open>items()\<close>, so a dict is an association list. Its
  keys are distinct in Python; nothing below depends on it. A float is a real number, an
  infinity or NaN: the code only compares floats with zero and with each other.
\<close>

datatype pyfloat = Fin real | PosInf | NegInf | NaN

datatype json =
    JNull
  | JBool bool
  | JInt int
  | JFloat pyfloat
  | JStr string
  | JList "json list"
  | JDict "(string \<times> json) list"

type_synonym pydict = "(string \<times> json) list"

text \<open>The exceptions of Python that the modelled code meets.\<close>

datatype error =
    KeyError | TypeError | ValueError | OverflowError | OSError | AttributeError
  | RecursionError | JSONDecodeError | FileNotFoundError

text \<open>\<^verbatim>\<open>key in d\<close>, \<^verbatim>\<open>d[key]\<close> (raising \<^verbatim>\<open>KeyError\<close>) and \<^verbatim>\<open>d[key] = value\<close> on a dict.\<close>

definition has_key :: "('k \<times> 'v) list \<Rightarrow> 'k \<Rightarrow> bool" where
  "has_key d k = (k \<in> fst ` set d)"

definition getitem :: "('k \<times> 'v) list \<Rightarrow> 'k \<Rightarrow> error + 'v" where
  "getitem d k = (case map_of d k of None \<Rightarrow> Inl KeyError | Some v \<Rightarrow> Inr v)"

fun setitem :: "('k \<times> 'v) list \<Rightarrow> 'k \<Rightarrow> 'v \<Rightarrow> ('k \<times> 'v) list" where
  "setitem [] k v = [(k, v)]"
| "setitem ((k', v') # d) k v =
     (if k' = k then (k, v) # d else (k', v') # setitem d k v)"

text \<open>\<^verbatim>\<open>d.update(e)\<close>: the items of \<open>e\<close> are stored into \<open>d\<close> one after the other.\<close>

fun update :: "('k \<times> 'v) list \<Rightarrow> ('k \<times> 'v) list \<Rightarrow> ('k \<times> 'v) list" where
  "update d [] = d"
| "update d ((k, v) # e) = update (setitem d k v) e"

subsection \<open>Numbers and strings of Python\<close>

text \<open>\<^verbatim>\<open>isinstance(v, (int, float))\<close>: \<^verbatim>\<open>bool\<close> is a subclass of \<^verbatim>\<open>int\<close>.\<close>

fun is_number :: "json \<Rightarrow> bool" where
  "is_number (JBool _) = True"
| "is_number (JInt _) = True"
| "is_number (JFloat _) = True"
| "is_number _ = False"

text \<open>\<^verbatim>\<open>v < 0\<close> on a number: \<^verbatim>\<open>True\<close> is 1, \<^verbatim>\<open>False\<close> is 0, NaN compares false.\<close>

fun float_negative :: "pyfloat \<Rightarrow> bool" where
  "float_negative (Fin r) = (r < 0)"
| "float_negative NegInf = True"
| "float_negative _ = False"

fun negative :: "json \<Rightarrow> bool" where
  "negative (JInt i) = (i < 0)"
| "negative (JFloat f) = float_negative f"
| "negative _ = False"

text \<open>\<^verbatim>\<open>str(index)\<close> for a list index: the decimal digits.\<close>

definition digit :: "nat \<Rightarrow> char" where
  "digit n = ''0123456789'' ! n"

fun str_nat :: "nat \<Rightarrow> string" where
  "str_nat n = (if n < 10 then [digit n] else str_nat (n div 10) @ [digit (n mod 10)])"

declare str_nat.simps [simp del]

section \<open>The negative-value scanner\<close>

text \<open>
  \<^verbatim>\<open>check_negative_values(self, data, path="")\<close>. The builtin \<^verbatim>\<open>float(value)\<close> on a
  string is the parameter \<open>flt\<close>: \<open>None\<close> where it raises \<^verbatim>\<open>ValueError\<close>, which the
  code catches and passes over. The two loops are \<open>scan_items\<close> (over \<^verbatim>\<open>data.items()\<close>)
  and \<open>scan_list\<close> (over \<^verbatim>\<open>enumerate(data)\<close>); both carry the dict \<^verbatim>\<open>negative_values\<close>
  that the code updates in place. A \<^verbatim>\<open>data\<close> that is neither a dict nor a list falls through
  both tests and the empty dict is returned.
\<close>

definition new_path_key :: "string \<Rightarrow> string \<Rightarrow> string" where
  "new_path_key path key = (if path \<noteq> [] then path @ ''.'' @ key else key)"

definition new_path_index :: "string \<Rightarrow> nat \<Rightarrow> string" where
  "new_path_index path index = path @ ''['' @ str_nat index @ '']''"

fun check_negative_values :: "(string \<Rightarrow> pyfloat option) \<Rightarrow> json \<Rightarrow> string \<Rightarrow> pydict"
  and scan_items :: "(string \<Rightarrow> pyfloat option) \<Rightarrow> pydict \<Rightarrow> string \<Rightarrow> pydict \<Rightarrow> pydict"
  and scan_list :: "(string \<Rightarrow> pyfloat option) \<Rightarrow> json list \<Rightarrow> nat \<Rightarrow> string \<Rightarrow> pydict \<Rightarrow> pydict"
where
  "check_negative_values flt (JDict d) path = scan_items flt d path []"
| "check_negative_values flt (JList xs) path = scan_list flt xs 0 path []"
| "check_negative_values flt JNull path = []"
| "check_negative_values flt (JBool b) path = []"
| "check_negative_values flt (JInt i) path = []"
| "check_negative_values flt (JFloat f) path = []"
| "check_negative_values flt (JStr s) path = []"
| "scan_items flt [] path negative_values = negative_values"
| "scan_items flt ((key, JDict d) # rest) path negative_values =
     scan_items flt rest path
       (update negative_values (check_negative_values flt (JDict d) (new_path_key path key)))"
| "scan_items flt ((key, JList xs) # rest) path negative_values =
     scan_items flt rest path
       (update negative_values (check_negative_values flt (JList xs) (new_path_key path key)))"
| "scan_items flt ((key, JStr s) # rest) path negative_values =
     scan_items flt rest path
       (case flt s of
          None \<Rightarrow> negative_values
        | Some f \<Rightarrow>
            if float_negative f then setitem negative_values (new_path_key path key) (JFloat f)
            else negative_values)"
| "scan_items flt ((key, value) # rest) path negative_values =
     scan_items flt rest path
       (if is_number value \<and> negative value
        then setitem negative_values (new_path_key path key) value
        else negative_values)"
| "scan_list flt [] index path negative_values = negative_values"
| "scan_list flt (item # rest) index path negative_values =
     scan_list flt rest (Suc index) path
       (update negative_values (check_negative_values flt item (new_path_index path index)))"

section \<open>Findings\<close>

text \<open>
  Every \<^verbatim>\<open>logger\<close> call appends one finding to the log: its level and its message. A
  message is kept as the format string it comes from (one constructor for each) with the
  values the code interpolates into it:
  \<^item> \<open>NegativeValuesFound\<close>: \<^verbatim>\<open>"Negative values found:"\<close>
  \<^item> \<open>NegativeEntry key value\<close>: \<^verbatim>\<open>f"{key}: {value}"\<close>
  \<^item> \<open>NoNegativeValues entity\<close>: \<^verbatim>\<open>f"No negative values found in {self.entity}."\<close>
  \<^item> \<open>InconsistentSchema entity index\<close>: \<^verbatim>\<open>f"Inconsistent schema in {self.entity} at line number {index}"\<close>
  \<^item> \<open>NullValue key entity index\<close>: \<^verbatim>\<open>f"Null value for {key} found in {self.entity} at line number {index}"\<close>
  \<^item> \<open>ValidDate field date entity\<close>: \<^verbatim>\<open>f"{field}: Valid date - {date} in {self.entity}"\<close>
  \<^item> \<open>InvalidDateFormat field entity\<close>: \<^verbatim>\<open>f"{field}: Invalid date format in {self.entity}"\<close>
  \<^item> \<open>IncorrectDateFormat field entity index\<close>: \<^verbatim>\<open>f"{field}: Incorrect date format found in {self.entity} at line number {index} ..."\<close>
  \<^item> \<open>MissingDateReceipts field index\<close>: \<^verbatim>\<open>f"Missing date field '{field}' in receipts data at line number {index}"\<close>
  \<^item> \<open>MissingDateUsers field index\<close>: \<^verbatim>\<open>f"Missing date field '{field}' in users data at line number {index}"\<close>
  \<^item> \<open>NegativeField key entity index\<close>: \<^verbatim>\<open>f"Negative value for {key} found in {self.entity} at line number  {index}"\<close>
  \<^item> \<open>EmptyList key entity index\<close>: \<^verbatim>\<open>f"Empty list for {key} in {self.entity} at line number {index}"\<close>
  \<^item> \<open>InvalidIdType entity index\<close>: \<^verbatim>\<open>f"Invalid _id type found in {self.entity} at line number {index}"\<close>
  \<^item> \<open>InvalidOidType entity index\<close>: \<^verbatim>\<open>f"Invalid $oid type in _id in {self.entity} at line number {index}"\<close>
  \<^item> \<open>DuplicateOids entity\<close>: \<^verbatim>\<open>f"Duplicate OIDs found in {self.entity}"\<close>
  \<^item> \<open>Oid oid\<close>: \<^verbatim>\<open>logger.info(oid)\<close>
  \<^item> \<open>NoDuplicates entity\<close>: \<^verbatim>\<open>f"No duplicates found in {self.entity}."\<close>
  \<^item> \<open>Completed\<close>: \<^verbatim>\<open>"Data quality check completed"\<close>
  \<^item> \<open>InvalidJson\<close>: \<^verbatim>\<open>"Invalid JSON structure"\<close>
  \<^item> \<open>FileNotFound entity\<close>: \<^verbatim>\<open>f"File not found: {self.entity}"\<close>
  \<^item> \<open>FileEmpty\<close>: \<^verbatim>\<open>"The file is empty"\<close>
\<close>

datatype level = INFO | WARNING | ERROR

datatype message =
    NegativeValuesFound
  | NegativeEntry string json
  | NoNegativeValues string
  | InconsistentSchema string nat
  | NullValue string string nat
  | ValidDate string string string
  | InvalidDateFormat string string
  | IncorrectDateFormat string string nat
  | MissingDateReceipts string nat
  | MissingDateUsers string nat
  | NegativeField string string nat
  | EmptyList string string nat
  | InvalidIdType string nat
  | InvalidOidType string nat
  | DuplicateOids string
  | Oid json
  | NoDuplicates string
  | Completed
  | InvalidJson
  | FileNotFound string
  | FileEmpty

type_synonym finding = "level \<times> message"

text \<open>
  A check that may raise yields the findings it has logged and the exception that ended it,
  if any. \<open>and_then\<close> is one statement after another: what follows a raise does not run.
  \<open>for_each\<close> is a \<^verbatim>\<open>for\<close> loop whose body is \<open>body\<close>; a raise in the body ends the loop.
\<close>

type_synonym outcome = "finding list \<times> error option"

definition and_then :: "outcome \<Rightarrow> outcome \<Rightarrow> outcome" where
  "and_then a b =
     (case snd a of
        Some e \<Rightarrow> (fst a, Some e)
      | None \<Rightarrow> (fst a @ fst b, snd b))"

fun for_each :: "('a \<Rightarrow> outcome) \<Rightarrow> 'a list \<Rightarrow> outcome" where
  "for_each body [] = ([], None)"
| "for_each body (x # xs) = and_then (body x) (for_each body xs)"

section \<open>The duplicate-id checker\<close>

text \<open>
  \<^verbatim>\<open>item["$oid"]\<close> on an arbitrary value: a dict without the key raises \<^verbatim>\<open>KeyError\<close>;
  a string or a list cannot be indexed by a string, and the other values cannot be indexed
  at all (\<^verbatim>\<open>TypeError\<close>).
\<close>

fun subscript :: "json \<Rightarrow> string \<Rightarrow> error + json" where
  "subscript (JDict d) k = getitem d k"
| "subscript _ k = Inl TypeError"

text \<open>\<^verbatim>\<open>[item["$oid"] for item in data]\<close>: the first failing element ends the comprehension.\<close>

fun oid_values :: "json list \<Rightarrow> error + json list" where
  "oid_values [] = Inr []"
| "oid_values (item # rest) =
     (case subscript item ''$oid'' of
        Inl e \<Rightarrow> Inl e
      | Inr v \<Rightarrow> (case oid_values rest of Inl e \<Rightarrow> Inl e | Inr vs \<Rightarrow> Inr (v # vs)))"

text \<open>
  \<^verbatim>\<open>Counter(oid_values)\<close> is a dict from the values to their counts, in first-seen order.
  A dict key must be hashable (a list or a dict is not: \<^verbatim>\<open>TypeError\<close>), and two keys are
  the same key when Python's \<^verbatim>\<open>==\<close> holds: numbers compare by value (\<^verbatim>\<open>True == 1 == 1.0\<close>),
  anything else only with its own kind. (Every NaN that \<^verbatim>\<open>json.loads\<close> returns is the one
  object of the decoder, which a dict finds by identity; so NaN is the same key as NaN.) The
  count is kept under the key that was seen first.
\<close>

fun hashable :: "json \<Rightarrow> bool" where
  "hashable (JList _) = False"
| "hashable (JDict _) = False"
| "hashable _ = True"

fun num_value :: "json \<Rightarrow> pyfloat option" where
  "num_value (JBool b) = Some (Fin (if b then 1 else 0))"
| "num_value (JInt i) = Some (Fin (of_int i))"
| "num_value (JFloat f) = Some f"
| "num_value _ = None"

definition py_eq :: "json \<Rightarrow> json \<Rightarrow> bool" where
  "py_eq a b =
     (case num_value a of
        Some x \<Rightarrow> (case num_value b of Some y \<Rightarrow> x = y | None \<Rightarrow> False)
      | None \<Rightarrow> (case num_value b of Some y \<Rightarrow> False | None \<Rightarrow> a = b))"

fun count_incr :: "(json \<times> nat) list \<Rightarrow> json \<Rightarrow> (json \<times> nat) list" where
  "count_incr [] v = [(v, 1)]"
| "count_incr ((k, n) # c) v =
     (if py_eq k v then (k, n + 1) # c else (k, n) # count_incr c v)"

fun Counter :: "(json \<times> nat) list \<Rightarrow> json list \<Rightarrow> error + (json \<times> nat) list" where
  "Counter c [] = Inr c"
| "Counter c (v # vs) = (if hashable v then Counter (count_incr c v) vs else Inl TypeError)"

definition find_duplicates :: "json list \<Rightarrow> error + json list" where
  "find_duplicates data =
     (case oid_values data of
        Inl e \<Rightarrow> Inl e
      | Inr vs \<Rightarrow>
          (case Counter [] vs of
             Inl e \<Rightarrow> Inl e
           | Inr count \<Rightarrow> Inr (map fst (filter (\<lambda>(oid, freq). freq > 1) count))))"

section \<open>The checker object\<close>

text \<open>
  \<^verbatim>\<open>DataQualityChecker\<close>: \<^verbatim>\<open>self.data\<close> is \<^verbatim>\<open>None\<close> until \<^verbatim>\<open>load_data\<close> has stored the
  list of records, and \<^verbatim>\<open>self.entity\<close> is the base name of the file without its extension.
  A record is one decoded line; the methods take it as a \<^verbatim>\<open>Dict\<close>, and so does the model
  (a line that decodes to a number, a string or a list is no record of the data model).

  Only \<^verbatim>\<open>load_data\<close> assigns to a field of the checker. No method assigns into a record
  or into the list of records: the one dict that the code writes to is the fresh
  \<^verbatim>\<open>negative_values\<close> of each scanner call. The checks are therefore functions of the
  records they read, and what they do is the list of findings they log.
\<close>

record checker =
  file_path :: string
  data :: "pydict list option"
  entity :: string

section \<open>Per-record checks\<close>

text \<open>
  \<^verbatim>\<open>check_negative_values_in_item\<close>: the scanner runs on the item with the empty path, then
  again on the same item with the path \<^verbatim>\<open>"rewardsReceiptItemList"\<close>, and the second result
  is merged into the first with \<^verbatim>\<open>update\<close>.
\<close>

definition check_negative_values_in_item ::
  "(string \<Rightarrow> pyfloat option) \<Rightarrow> string \<Rightarrow> pydict \<Rightarrow> finding list" where
  "check_negative_values_in_item flt ent item =
     (let result = check_negative_values flt (JDict item) [];
          result = update result (check_negative_values flt (JDict item) ''rewardsReceiptItemList'')
      in if result \<noteq> []
         then (WARNING, NegativeValuesFound) # map (\<lambda>(key, value). (INFO, NegativeEntry key value)) result
         else [(INFO, NoNegativeValues ent)])"

definition check_schema_consistency :: "string \<Rightarrow> pydict \<Rightarrow> nat \<Rightarrow> string set \<Rightarrow> finding list" where
  "check_schema_consistency ent item index expected_keys =
     (if set (map fst item) \<noteq> expected_keys then [(WARNING, InconsistentSchema ent index)] else [])"

text \<open>
  \<^verbatim>\<open>check_date_format\<close>. The conversion \<^verbatim>\<open>datetime.fromtimestamp(timestamp / 1000)\<close> of a
  number and its rendering are the parameter \<open>fromtimestamp\<close>: the rendered date, or the
  exception that the library raises (\<^verbatim>\<open>ValueError\<close>, \<^verbatim>\<open>OverflowError\<close>, or \<^verbatim>\<open>OSError\<close>
  where the C library refuses the timestamp). A timestamp that is not a number cannot be
  divided (\<^verbatim>\<open>TypeError\<close>). The \<^verbatim>\<open>except\<close> clause catches \<^verbatim>\<open>ValueError\<close>,
  \<^verbatim>\<open>TypeError\<close> and \<^verbatim>\<open>OverflowError\<close> and logs a warning; any other exception leaves
  the loop and the method. \<open>check_date_field\<close> is the body of the loop over
  \<^verbatim>\<open>date_fields\<close>.
\<close>

definition date_fields :: "string list" where
  "date_fields =
     [''lastLogin'', ''createDate'', ''dateScanned'', ''finishedDate'', ''modifyDate'',
      ''pointsAwardedDate'', ''purchaseDate'']"

definition convert_date :: "(json \<Rightarrow> error + string) \<Rightarrow> json \<Rightarrow> error + string" where
  "convert_date fromtimestamp timestamp =
     (if is_number timestamp then fromtimestamp timestamp else Inl TypeError)"

definition caught :: "error \<Rightarrow> bool" where
  "caught e = List.member [ValueError, TypeError, OverflowError] e"

definition check_date_field ::
  "(json \<Rightarrow> error + string) \<Rightarrow> string \<Rightarrow> pydict \<Rightarrow> nat \<Rightarrow> string \<Rightarrow> outcome" where
  "check_date_field fromtimestamp ent item index field =
     (case map_of item field of
        Some value \<Rightarrow>
          (case value of
             JDict d \<Rightarrow>
               (case map_of d ''$date'' of
                  Some timestamp \<Rightarrow>
                    (case convert_date fromtimestamp timestamp of
                       Inr date \<Rightarrow> ([(INFO, ValidDate field date ent)], None)
                     | Inl e \<Rightarrow>
                         if caught e then ([(WARNING, InvalidDateFormat field ent)], None)
                         else ([], Some e))
                | None \<Rightarrow> ([(WARNING, IncorrectDateFormat field ent index)], None))
           | _ \<Rightarrow> ([(WARNING, IncorrectDateFormat field ent index)], None))
      | None \<Rightarrow>
          if ent = ''receipts'' \<and> field \<in> set (drop 1 date_fields)
          then ([(WARNING, MissingDateReceipts field index)], None)
          else if ent = ''users'' \<and> field \<in> set (take 1 date_fields)
          then ([(WARNING, MissingDateUsers field index)], None)
          else ([], None))"

definition check_date_format ::
  "(json \<Rightarrow> error + string) \<Rightarrow> string \<Rightarrow> pydict \<Rightarrow> nat \<Rightarrow> outcome" where
  "check_date_format fromtimestamp ent item index =
     for_each (check_date_field fromtimestamp ent item index) date_fields"

text \<open>
  \<^verbatim>\<open>check_negative_numeric_fields\<close>: \<^verbatim>\<open>key.lower()\<close> on the letters A to Z, and
  \<^verbatim>\<open>indicator in key.lower()\<close>, the substring test.
\<close>

definition lower_char :: "char \<Rightarrow> char" where
  "lower_char c =
     (if 65 \<le> (of_char c :: nat) \<and> (of_char c :: nat) \<le> 90 then char_of (of_char c + 32 :: nat) else c)"

definition lower :: "string \<Rightarrow> string" where
  "lower s = map lower_char s"

fun starts_with :: "string \<Rightarrow> string \<Rightarrow> bool" where
  "starts_with s [] = True"
| "starts_with [] (c # cs) = False"
| "starts_with (x # xs) (c # cs) = (x = c \<and> starts_with xs cs)"

fun contains :: "string \<Rightarrow> string \<Rightarrow> bool" where
  "contains [] sub = (sub = [])"
| "contains (x # xs) sub = (starts_with (x # xs) sub \<or> contains xs sub)"

definition check_negative_numeric_fields :: "string \<Rightarrow> string \<Rightarrow> json \<Rightarrow> nat \<Rightarrow> finding list" where
  "check_negative_numeric_fields ent key value index =
     (if list_ex (\<lambda>indicator. contains (lower key) indicator)
            [''count'', ''amount'', ''price'', ''quantity'']
         \<and> negative value
      then [(WARNING, NegativeField key ent index)] else [])"

text \<open>\<^verbatim>\<open>check_empty_list\<close>: \<^verbatim>\<open>not value\<close> is the truth test of Python.\<close>

fun truthy :: "json \<Rightarrow> bool" where
  "truthy JNull = False"
| "truthy (JBool b) = b"
| "truthy (JInt i) = (i \<noteq> 0)"
| "truthy (JFloat f) = (f \<noteq> Fin 0)"
| "truthy (JStr s) = (s \<noteq> [])"
| "truthy (JList xs) = (xs \<noteq> [])"
| "truthy (JDict d) = (d \<noteq> [])"

definition check_empty_list :: "string \<Rightarrow> string \<Rightarrow> json \<Rightarrow> nat \<Rightarrow> finding list" where
  "check_empty_list ent key value index =
     (if \<not> truthy value then [(WARNING, EmptyList key ent index)] else [])"

text \<open>\<^verbatim>\<open>check_id_type\<close>.\<close>

fun is_dict :: "json \<Rightarrow> bool" where
  "is_dict (JDict _) = True"
| "is_dict _ = False"

fun is_str :: "json \<Rightarrow> bool" where
  "is_str (JStr _) = True"
| "is_str _ = False"

fun is_list :: "json \<Rightarrow> bool" where
  "is_list (JList _) = True"
| "is_list _ = False"

fun items :: "json \<Rightarrow> pydict" where
  "items (JDict d) = d"
| "items _ = []"

definition check_id_type :: "string \<Rightarrow> pydict \<Rightarrow> nat \<Rightarrow> finding list" where
  "check_id_type ent item index =
     (case map_of item ''_id'' of
        None \<Rightarrow> []
      | Some v \<Rightarrow>
          if \<not> is_dict v \<or> \<not> has_key (items v) ''$oid''
          then [(WARNING, InvalidIdType ent index)]
          else (case map_of (items v) ''$oid'' of
                  Some oid \<Rightarrow> if \<not> is_str oid then [(WARNING, InvalidOidType ent index)] else []
                | None \<Rightarrow> []))"

text \<open>
  \<^verbatim>\<open>check_field_types\<close>: \<open>check_field\<close> is the body of the loop over \<^verbatim>\<open>item.items()\<close>, the
  \<^verbatim>\<open>if\<close>/\<^verbatim>\<open>elif\<close> chain on the kind of the value, in the order of the source.
\<close>

definition check_field ::
  "(json \<Rightarrow> error + string) \<Rightarrow> string \<Rightarrow> pydict \<Rightarrow> nat \<Rightarrow> string \<times> json \<Rightarrow> outcome" where
  "check_field fromtimestamp ent item index kv =
     (let key = fst kv; value = snd kv
      in if is_str value then check_date_format fromtimestamp ent item index
         else if is_number value then (check_negative_numeric_fields ent key value index, None)
         else if is_list value then (check_empty_list ent key value index, None)
         else if value = JNull then ([(WARNING, NullValue key ent index)], None)
         else ([], None))"

definition check_field_types ::
  "(json \<Rightarrow> error + string) \<Rightarrow> string \<Rightarrow> pydict \<Rightarrow> nat \<Rightarrow> outcome" where
  "check_field_types fromtimestamp ent item index =
     and_then (for_each (check_field fromtimestamp ent item index) item)
       (check_id_type ent item index, None)"

definition check_item ::
  "(string \<Rightarrow> pyfloat option) \<Rightarrow> (json \<Rightarrow> error + string) \<Rightarrow> string \<Rightarrow> pydict \<Rightarrow> nat \<Rightarrow>
   string set \<Rightarrow> outcome" where
  "check_item flt fromtimestamp ent item index expected_keys =
     and_then (check_negative_values_in_item flt ent item, None)
       (and_then (check_schema_consistency ent item index expected_keys, None)
          (check_field_types fromtimestamp ent item index))"

section \<open>Collection checks and the orchestrator\<close>

text \<open>
  \<^verbatim>\<open>check_id_uniqueness\<close>: the ids are the \<^verbatim>\<open>_id\<close> values of the records that have the key,
  whatever their shape. The result is the log and the exception that ended the call, if any.
\<close>

definition check_id_uniqueness ::
  "string \<Rightarrow> pydict list \<Rightarrow> string set \<Rightarrow> finding list \<times> error option" where
  "check_id_uniqueness ent records expected_keys =
     (if ''_id'' \<in> expected_keys then
        (let ids = List.map_filter (\<lambda>item. map_of item ''_id'') records
         in case find_duplicates ids of
              Inl e \<Rightarrow> ([], Some e)
            | Inr duplicate_oids \<Rightarrow>
                if duplicate_oids \<noteq> []
                then ((WARNING, DuplicateOids ent) # map (\<lambda>oid. (INFO, Oid oid)) duplicate_oids, None)
                else ([(INFO, NoDuplicates ent)], None))
      else ([], None))"

text \<open>The loop \<^verbatim>\<open>for index, item in enumerate(self.data)\<close> of \<^verbatim>\<open>check_json_quality\<close>.\<close>

fun check_items ::
  "(string \<Rightarrow> pyfloat option) \<Rightarrow> (json \<Rightarrow> error + string) \<Rightarrow> string \<Rightarrow> pydict list \<Rightarrow> nat \<Rightarrow>
   string set \<Rightarrow> outcome" where
  "check_items flt fromtimestamp ent [] index expected_keys = ([], None)"
| "check_items flt fromtimestamp ent (item # rest) index expected_keys =
     and_then (check_item flt fromtimestamp ent item index expected_keys)
       (check_items flt fromtimestamp ent rest (Suc index) expected_keys)"

text \<open>
  \<^verbatim>\<open>check_json_quality\<close> is a method of the checker: it returns the checker as the call
  leaves it, the findings it logged, and the exception that ended it, if any. \<^verbatim>\<open>not self.data\<close>
  holds for \<^verbatim>\<open>None\<close> and for the empty list.
\<close>

definition check_json_quality ::
  "(string \<Rightarrow> pyfloat option) \<Rightarrow> (json \<Rightarrow> error + string) \<Rightarrow> checker \<Rightarrow>
   checker \<times> finding list \<times> error option" where
  "check_json_quality flt fromtimestamp self =
     (case data self of
        None \<Rightarrow> (self, [], None)
      | Some [] \<Rightarrow> (self, [], None)
      | Some (first # rest) \<Rightarrow>
          (let expected_keys = set (map fst first);
               run = and_then
                       (check_items flt fromtimestamp (entity self) (first # rest) 0 expected_keys)
                       (and_then (check_id_uniqueness (entity self) (first # rest) expected_keys)
                          ([(INFO, Completed)], None))
           in (self, fst run, snd run)))"

text \<open>
  \<^verbatim>\<open>load_data\<close>. The file is what the reader finds: no file, or its lines, each either the
  record it decodes to or \<open>None\<close> where \<^verbatim>\<open>json.loads\<close> raises \<^verbatim>\<open>JSONDecodeError\<close>.
\<close>

datatype json_file = Missing | Lines "pydict option list"

fun read_json_file :: "pydict option list \<Rightarrow> error + pydict list" where
  "read_json_file [] = Inr []"
| "read_json_file (None # rest) = Inl JSONDecodeError"
| "read_json_file (Some r # rest) =
     (case read_json_file rest of Inl e \<Rightarrow> Inl e | Inr rs \<Rightarrow> Inr (r # rs))"

definition load_data :: "json_file \<Rightarrow> checker \<Rightarrow> checker \<times> finding list \<times> error option" where
  "load_data f self =
     (case f of
        Missing \<Rightarrow> (self, [(ERROR, FileNotFound (entity self))], Some FileNotFoundError)
      | Lines ls \<Rightarrow>
          (case read_json_file ls of
             Inl e \<Rightarrow> (self, [(WARNING, InvalidJson)], Some e)
           | Inr rs \<Rightarrow>
               (self\<lparr>data := Some rs\<rparr>, if rs = [] then [(WARNING, FileEmpty)] else [], None)))"

section \<open>Notions of the specification\<close>

text \<open>
  The wrapped-identifier shape of the specification: a mapping that contains the key
  \<^verbatim>\<open>$oid\<close> with a string value.
\<close>

definition wrapped_identifier :: "json \<Rightarrow> bool" where
  "wrapped_identifier v =
     (case v of
        JDict d \<Rightarrow> (case map_of d ''$oid'' of Some oid \<Rightarrow> is_str oid | None \<Rightarrow> False)
      | _ \<Rightarrow> False)"

text \<open>
  What the scanner can find: a negative number, or a string that \<^verbatim>\<open>float\<close> turns into
  one, that is the value of a mapping field, at any depth. \<open>negative_number\<close> is what an
  entry of the result is to be.
\<close>

definition negative_number :: "string \<times> json \<Rightarrow> bool" where
  "negative_number kv = (is_number (snd kv) \<and> negative (snd kv))"

fun has_negative :: "(string \<Rightarrow> pyfloat option) \<Rightarrow> json \<Rightarrow> bool"
  and has_negative_items :: "(string \<Rightarrow> pyfloat option) \<Rightarrow> pydict \<Rightarrow> bool"
  and has_negative_list :: "(string \<Rightarrow> pyfloat option) \<Rightarrow> json list \<Rightarrow> bool"
where
  "has_negative flt (JDict d) = has_negative_items flt d"
| "has_negative flt (JList xs) = has_negative_list flt xs"
| "has_negative flt JNull = False"
| "has_negative flt (JBool b) = False"
| "has_negative flt (JInt i) = False"
| "has_negative flt (JFloat f) = False"
| "has_negative flt (JStr s) = False"
| "has_negative_items flt [] = False"
| "has_negative_items flt ((key, JDict d) # rest) =
     (has_negative flt (JDict d) \<or> has_negative_items flt rest)"
| "has_negative_items flt ((key, JList xs) # rest) =
     (has_negative flt (JList xs) \<or> has_negative_items flt rest)"
| "has_negative_items flt ((key, JStr s) # rest) =
     ((case flt s of None \<Rightarrow> False | Some f \<Rightarrow> float_negative f)
      \<or> has_negative_items flt rest)"
| "has_negative_items flt ((key, value) # rest) =
     (negative value \<or> has_negative_items flt rest)"
| "has_negative_list flt [] = False"
| "has_negative_list flt (item # rest) = (has_negative flt item \<or> has_negative_list flt rest)"

text \<open>
  The negative-value report as the specification words it: the second scan is scoped to the
  \<^verbatim>\<open>rewardsReceiptItemList\<close> sub-structure of the record (nothing to scan when the record
  has no such field), and the two mappings are merged before reporting.
\<close>

definition scoped_scan :: "(string \<Rightarrow> pyfloat option) \<Rightarrow> pydict \<Rightarrow> pydict" where
  "scoped_scan flt item =
     (case map_of item ''rewardsReceiptItemList'' of
        None \<Rightarrow> []
      | Some sub \<Rightarrow> check_negative_values flt sub ''rewardsReceiptItemList'')"

definition report_negative_values :: "string \<Rightarrow> pydict \<Rightarrow> finding list" where
  "report_negative_values ent result =
     (if result \<noteq> []
      then (WARNING, NegativeValuesFound)
             # map (\<lambda>(key, value). (INFO, NegativeEntry key value)) result
      else [(INFO, NoNegativeValues ent)])"

definition scoped_negative_values_in_item ::
  "(string \<Rightarrow> pyfloat option) \<Rightarrow> string \<Rightarrow> pydict \<Rightarrow> finding list" where
  "scoped_negative_values_in_item flt ent item =
     report_negative_values ent
       (update (check_negative_values flt (JDict item) []) (scoped_scan flt item))"

text \<open>
  Duplicates as the specification words them: the frequency of a value in a list (values
  compared as the keys of a Python dict are), the values in the order in which each is first
  seen, and the inner \<^verbatim>\<open>$oid\<close> values of a list of identifiers.
\<close>

definition frequency :: "json \<Rightarrow> json list \<Rightarrow> nat" where
  "frequency v vs = length (filter (py_eq v) vs)"

definition first_seen :: "json list \<Rightarrow> json list" where
  "first_seen vs =
     foldl (\<lambda>seen v. if list_ex (\<lambda>w. py_eq w v) seen then seen else seen @ [v]) [] vs"

definition tally :: "json list \<Rightarrow> (json \<times> nat) list" where
  "tally vs = map (\<lambda>k. (k, frequency k vs)) (first_seen vs)"

definition oid_of :: "json \<Rightarrow> json option" where
  "oid_of item = (case item of JDict d \<Rightarrow> map_of d ''$oid'' | _ \<Rightarrow> None)"

definition hashable_oid :: "json \<Rightarrow> bool" where
  "hashable_oid item = (case oid_of item of Some v \<Rightarrow> hashable v | None \<Rightarrow> False)"

definition inner_values :: "json list \<Rightarrow> json list" where
  "inner_values ids = List.map_filter oid_of ids"

text \<open>The warnings of the date-field check about a missing field.\<close>

fun missing_date_warning :: "finding \<Rightarrow> bool" where
  "missing_date_warning (l, MissingDateReceipts field index) = True"
| "missing_date_warning (l, MissingDateUsers field index) = True"
| "missing_date_warning (l, m) = False"

section \<open>Basic facts\<close>

lemma has_key_map_of: "has_key d k = (map_of d k \<noteq> None)"
  by (simp add: has_key_def map_of_eq_None_iff)

lemma setitem_not_Nil: "setitem d k v \<noteq> []"
  by (cases d) (auto split: if_splits)

lemma update_Nil_iff: "update d e = [] \<longleftrightarrow> d = [] \<and> e = []"
  by (induction d e rule: update.induct) (auto simp: setitem_not_Nil)

lemma setitem_all: "list_all P d \<Longrightarrow> P (k, v) \<Longrightarrow> list_all P (setitem d k v)"
  by (induction d) auto

lemma update_all: "list_all P d \<Longrightarrow> list_all P e \<Longrightarrow> list_all P (update d e)"
  by (induction d e rule: update.induct) (auto simp: setitem_all)

text \<open>Sequencing: what a loop logs when no body raises.\<close>

lemma and_then_simps [simp]:
  "and_then (fs, Some e) b = (fs, Some e)"
  "and_then (fs, None) b = (fs @ fst b, snd b)"
  by (simp_all add: and_then_def)

lemma for_each_returns:
  "snd (for_each body xs) = None \<longleftrightarrow> list_all (\<lambda>x. snd (body x) = None) xs"
  by (induction xs) (auto simp: and_then_def split: option.splits)

lemma for_each_findings:
  "snd (for_each body xs) = None \<Longrightarrow> fst (for_each body xs) = concat (map (\<lambda>x. fst (body x)) xs)"
  by (induction xs) (auto simp: and_then_def split: option.splits)

section \<open>What the scanner finds\<close>

text \<open>The examples of the specification, and string leaves.\<close>

lemma scanner_examples:
  "check_negative_values flt (JDict [(''value'', JInt (- 5))]) [] = [(''value'', JInt (- 5))]"
  "check_negative_values flt (JDict [(''value'', JInt 10)]) [] = []"
  "check_negative_values flt (JDict [(''a'', JDict [(''b'', JInt (- 3))])]) []
     = [(''a.b'', JInt (- 3))]"
  "check_negative_values flt (JDict [(''list'', JList [JDict [(''x'', JInt (- 1))]])]) []
     = [(''list[0].x'', JInt (- 1))]"
  by (simp_all add: new_path_key_def new_path_index_def str_nat.simps digit_def)

lemma scanner_strings:
  "flt s = None \<Longrightarrow> check_negative_values flt (JDict [(key, JStr s)]) path = []"
  "flt s = Some f \<Longrightarrow> check_negative_values flt (JDict [(key, JStr s)]) path
      = (if float_negative f then [(new_path_key path key, JFloat f)] else [])"
  by simp_all

text \<open>Every entry of the result is a negative number.\<close>

lemma negative_number_pair: "negative_number (k, v) \<longleftrightarrow> is_number v \<and> negative v"
  by (simp add: negative_number_def)

lemma scanner_sound:
  "list_all negative_number (check_negative_values flt j path)"
  "list_all negative_number acc \<Longrightarrow> list_all negative_number (scan_items flt d path acc)"
  "list_all negative_number acc \<Longrightarrow> list_all negative_number (scan_list flt xs index path acc)"
  by (induction flt j path and flt d path acc and flt xs index path acc
        rule: check_negative_values_scan_items_scan_list.induct)
     (auto simp: update_all setitem_all negative_number_pair split: option.splits)

text \<open>
  The result is empty exactly when no mapping field, at any depth, holds a negative number;
  the path has no part in that.
\<close>

lemma scanner_empty:
  "check_negative_values flt j path = [] \<longleftrightarrow> \<not> has_negative flt j"
  "scan_items flt d path acc = [] \<longleftrightarrow> acc = [] \<and> \<not> has_negative_items flt d"
  "scan_list flt xs index path acc = [] \<longleftrightarrow> acc = [] \<and> \<not> has_negative_list flt xs"
  by (induction flt j path and flt d path acc and flt xs index path acc
        rule: check_negative_values_scan_items_scan_list.induct)
     (auto simp: update_Nil_iff setitem_not_Nil split: option.splits)

lemma scanner_empty_any_path:
  "check_negative_values flt j path = [] \<longleftrightarrow> check_negative_values flt j path' = []"
  by (simp add: scanner_empty)

text \<open>
  C5. The scanner does not find every negative number of the structure: an element of a
  list is scanned by the recursive call, which looks into dicts and lists only, so a number
  that is itself a list element is never tested. \<^verbatim>\<open>{"xs": [-1]}\<close> and \<^verbatim>\<open>[-1, -2.0]\<close>
  give the empty mapping.
\<close>

theorem scanner_skips_list_scalars:
  "check_negative_values flt (JDict [(''xs'', JList [JInt (- 1)])]) [] = []
   \<and> check_negative_values flt (JList [JInt (- 1), JFloat (Fin (- 2))]) [] = []"
  by (simp add: new_path_key_def)

section \<open>The negative-value report of a record\<close>

lemma success_not_entry:
  "(INFO, NoNegativeValues ent)
     \<notin> set (map (\<lambda>(key, value). (INFO, NegativeEntry key value)) result)"
  by (induction result) auto

text \<open>
  Whatever the second scan adds, the success message is logged exactly when the scan of the
  whole record with the empty path finds nothing.
\<close>

lemma success_message_iff:
  "(INFO, NoNegativeValues ent) \<in> set (check_negative_values_in_item flt ent item)
     \<longleftrightarrow> check_negative_values flt (JDict item) [] = []"
proof -
  let ?result = "update (check_negative_values flt (JDict item) [])
               (check_negative_values flt (JDict item) ''rewardsReceiptItemList'')"
  have eq: "check_negative_values_in_item flt ent item = report_negative_values ent ?result"
    by (simp add: check_negative_values_in_item_def report_negative_values_def)
  have "(INFO, NoNegativeValues ent) \<in> set (report_negative_values ent ?result)
          \<longleftrightarrow> ?result = []"
    using success_not_entry [of ent ?result] by (simp add: report_negative_values_def)
  with eq have "(INFO, NoNegativeValues ent) \<in> set (check_negative_values_in_item flt ent item)
        \<longleftrightarrow> check_negative_values flt (JDict item) [] = []
            \<and> check_negative_values flt (JDict item) ''rewardsReceiptItemList'' = []"
    by (simp only: update_Nil_iff)
  moreover have "check_negative_values flt (JDict item) ''rewardsReceiptItemList'' = []
          \<longleftrightarrow> check_negative_values flt (JDict item) [] = []"
    by (rule scanner_empty_any_path)
  ultimately show ?thesis by blast
qed

text \<open>
  C2. The second scan is not scoped to the \<^verbatim>\<open>rewardsReceiptItemList\<close> sub-structure of the
  record: the call hands the whole record to the scanner again, with
  \<^verbatim>\<open>rewardsReceiptItemList\<close> as the path of the record itself. On \<^verbatim>\<open>{"value": -5}\<close>, which
  has no such field, the code logs the finding a second time under the path
  \<^verbatim>\<open>rewardsReceiptItemList.value\<close>, which does not exist in the record; on a receipt with
  one item it logs \<^verbatim>\<open>rewardsReceiptItemList.rewardsReceiptItemList[0].finalPrice\<close>. A second
  scan scoped to the sub-structure reports each finding once, under its own path.
\<close>

theorem second_scan_not_scoped:
  "check_negative_values_in_item flt ''receipts'' [(''value'', JInt (- 5))]
     = [(WARNING, NegativeValuesFound), (INFO, NegativeEntry ''value'' (JInt (- 5))),
        (INFO, NegativeEntry ''rewardsReceiptItemList.value'' (JInt (- 5)))]
   \<and> scoped_negative_values_in_item flt ''receipts'' [(''value'', JInt (- 5))]
     = [(WARNING, NegativeValuesFound), (INFO, NegativeEntry ''value'' (JInt (- 5)))]
   \<and> check_negative_values_in_item flt ''receipts''
       [(''rewardsReceiptItemList'', JList [JDict [(''finalPrice'', JInt (- 1))]])]
     = [(WARNING, NegativeValuesFound),
        (INFO, NegativeEntry ''rewardsReceiptItemList[0].finalPrice'' (JInt (- 1))),
        (INFO, NegativeEntry ''rewardsReceiptItemList.rewardsReceiptItemList[0].finalPrice''
                 (JInt (- 1)))]
   \<and> scoped_negative_values_in_item flt ''receipts''
       [(''rewardsReceiptItemList'', JList [JDict [(''finalPrice'', JInt (- 1))]])]
     = [(WARNING, NegativeValuesFound),
        (INFO, NegativeEntry ''rewardsReceiptItemList[0].finalPrice'' (JInt (- 1)))]"
  by (simp add: check_negative_values_in_item_def scoped_negative_values_in_item_def
        report_negative_values_def scoped_scan_def new_path_key_def new_path_index_def
        str_nat.simps digit_def)

section \<open>Missing date fields\<close>

text \<open>
  When the date-field check returns, the missing-field warnings it has logged are these: for
  the entity \<^verbatim>\<open>receipts\<close>, one for every recognised date field that the record lacks
  except \<^verbatim>\<open>lastLogin\<close>, in the order of the list; for the entity \<^verbatim>\<open>users\<close>, one for
  \<^verbatim>\<open>lastLogin\<close> when the record lacks it and for no other field; for any other entity,
  none.
\<close>

lemma concat_map_if: "concat (map (\<lambda>x. if P x then [g x] else []) xs) = map g (filter P xs)"
  by (induction xs) auto

lemma not_first_date_field:
  "field \<in> set date_fields \<Longrightarrow> field \<in> set (drop 1 date_fields) \<longleftrightarrow> field \<noteq> ''lastLogin''"
  by (auto simp: date_fields_def)

lemma first_date_field:
  "field \<in> set date_fields \<Longrightarrow> field \<in> set (take 1 date_fields) \<longleftrightarrow> field = ''lastLogin''"
  by (auto simp: date_fields_def)

lemma missing_date_field:
  "filter missing_date_warning (fst (check_date_field fromtimestamp ent item index field)) =
     (if map_of item field = None then
        (if ent = ''receipts'' \<and> field \<in> set (drop 1 date_fields)
         then [(WARNING, MissingDateReceipts field index)]
         else if ent = ''users'' \<and> field \<in> set (take 1 date_fields)
         then [(WARNING, MissingDateUsers field index)]
         else [])
      else [])"
  by (simp add: check_date_field_def split: option.splits json.splits sum.splits)

lemma filter_check_date_format:
  assumes "snd (check_date_format fromtimestamp ent item index) = None"
  shows "filter P (fst (check_date_format fromtimestamp ent item index)) =
     concat (map (\<lambda>field. filter P (fst (check_date_field fromtimestamp ent item index field)))
               date_fields)"
  using for_each_findings [OF assms [unfolded check_date_format_def]]
  by (simp add: check_date_format_def filter_concat comp_def)

lemma missing_date_fields:
  assumes ret: "snd (check_date_format fromtimestamp ent item index) = None"
  shows "filter missing_date_warning (fst (check_date_format fromtimestamp ent item index)) =
     (if ent = ''receipts''
      then map (\<lambda>field. (WARNING, MissingDateReceipts field index))
             (filter (\<lambda>field. \<not> has_key item field \<and> field \<noteq> ''lastLogin'') date_fields)
      else if ent = ''users''
      then map (\<lambda>field. (WARNING, MissingDateUsers field index))
             (filter (\<lambda>field. \<not> has_key item field \<and> field = ''lastLogin'') date_fields)
      else [])"
proof -
  note unfold = filter_check_date_format [OF ret] missing_date_field has_key_map_of
  consider (receipts) "ent = ''receipts''" | (users) "ent = ''users''"
    | (other) "ent \<noteq> ''receipts''" "ent \<noteq> ''users''"
    by blast
  then show ?thesis
  proof cases
    case receipts
    have "filter missing_date_warning (fst (check_date_format fromtimestamp ent item index))
            = concat (map (\<lambda>field. if \<not> has_key item field \<and> field \<in> set (drop 1 date_fields)
                                   then [(WARNING, MissingDateReceipts field index)] else [])
                       date_fields)"
      unfolding unfold
      using receipts by (intro arg_cong [where f = concat] map_cong) auto
    also have "\<dots> = map (\<lambda>field. (WARNING, MissingDateReceipts field index))
                      (filter (\<lambda>field. \<not> has_key item field \<and> field \<in> set (drop 1 date_fields))
                         date_fields)"
      by (rule concat_map_if)
    also have "filter (\<lambda>field. \<not> has_key item field \<and> field \<in> set (drop 1 date_fields)) date_fields
                 = filter (\<lambda>field. \<not> has_key item field \<and> field \<noteq> ''lastLogin'') date_fields"
      by (rule filter_cong [OF refl]) (simp only: not_first_date_field)
    finally show ?thesis using receipts by simp
  next
    case users
    have "filter missing_date_warning (fst (check_date_format fromtimestamp ent item index))
            = concat (map (\<lambda>field. if \<not> has_key item field \<and> field \<in> set (take 1 date_fields)
                                   then [(WARNING, MissingDateUsers field index)] else [])
                       date_fields)"
      unfolding unfold
      using users by (intro arg_cong [where f = concat] map_cong) auto
    also have "\<dots> = map (\<lambda>field. (WARNING, MissingDateUsers field index))
                      (filter (\<lambda>field. \<not> has_key item field \<and> field \<in> set (take 1 date_fields))
                         date_fields)"
      by (rule concat_map_if)
    also have "filter (\<lambda>field. \<not> has_key item field \<and> field \<in> set (take 1 date_fields)) date_fields
                 = filter (\<lambda>field. \<not> has_key item field \<and> field = ''lastLogin'') date_fields"
      by (rule filter_cong [OF refl]) (simp only: first_date_field)
    finally show ?thesis using users by simp
  next
    case other
    have "filter missing_date_warning (fst (check_date_format fromtimestamp ent item index))
            = concat (map (\<lambda>field. []) date_fields)"
      unfolding unfold
      using other by (intro arg_cong [where f = concat] map_cong) auto
    then show ?thesis using other by simp
  qed
qed

text \<open>
  C4. The check does not always get to the absent fields. The \<^verbatim>\<open>except\<close> clause names
  \<^verbatim>\<open>ValueError\<close>, \<^verbatim>\<open>TypeError\<close> and \<^verbatim>\<open>OverflowError\<close>, but on a timestamp that the C
  library refuses (\<^verbatim>\<open>{"$date": 100000000000000000000}\<close> on Linux)
  \<^verbatim>\<open>datetime.fromtimestamp\<close> raises \<^verbatim>\<open>OSError\<close>. On the receipts record
  \<^verbatim>\<open>{"createDate": {"$date": 100000000000000000000}}\<close> that exception leaves the loop at
  \<^verbatim>\<open>createDate\<close>: no warning is logged for the five absent fields after it. Had the
  conversion raised \<^verbatim>\<open>OverflowError\<close>, the loop would have gone on and logged all five.
\<close>

theorem uncaught_date_error:
  "check_date_format (fromtimestamp(JInt 100000000000000000000 := Inl OSError)) ''receipts''
     [(''createDate'', JDict [(''$date'', JInt 100000000000000000000)])] 0
     = ([], Some OSError)
   \<and> check_date_format (fromtimestamp(JInt 100000000000000000000 := Inl OverflowError)) ''receipts''
     [(''createDate'', JDict [(''$date'', JInt 100000000000000000000)])] 0
     = ([(WARNING, InvalidDateFormat ''createDate'' ''receipts''),
         (WARNING, MissingDateReceipts ''dateScanned'' 0),
         (WARNING, MissingDateReceipts ''finishedDate'' 0),
         (WARNING, MissingDateReceipts ''modifyDate'' 0),
         (WARNING, MissingDateReceipts ''pointsAwardedDate'' 0),
         (WARNING, MissingDateReceipts ''purchaseDate'' 0)], None)"
  by (simp add: check_date_format_def check_date_field_def date_fields_def convert_date_def
        caught_def and_then_def)

section \<open>The identifier-shape check\<close>

text \<open>
  C6. For every record, \<^verbatim>\<open>check_id_type\<close> emits exactly one warning when the record has a
  field \<^verbatim>\<open>_id\<close> whose value is not a wrapped identifier (not a mapping, a mapping without
  \<^verbatim>\<open>$oid\<close>, or a mapping whose \<^verbatim>\<open>$oid\<close> is not a string), and emits nothing when \<^verbatim>\<open>_id\<close>
  is a wrapped identifier or the record has no \<^verbatim>\<open>_id\<close> at all. The warning names the entity
  and the line index.
\<close>

theorem check_id_type_shape:
  "check_id_type ent item index =
     (case map_of item ''_id'' of
        None \<Rightarrow> []
      | Some v \<Rightarrow>
          if wrapped_identifier v then []
          else [(WARNING,
                 if is_dict v \<and> has_key (items v) ''$oid'' then InvalidOidType ent index
                 else InvalidIdType ent index)])"
  by (cases "map_of item ''_id''")
     (auto simp: check_id_type_def wrapped_identifier_def has_key_map_of
           split: json.splits option.splits)

theorem check_id_type_shape_witness:
  "check_id_type ''users'' [(''_id'', JStr ''abc'')] 4 = [(WARNING, InvalidIdType ''users'' 4)]
   \<and> check_id_type ''users'' [(''_id'', JDict [(''$oid'', JInt 123)])] 5
       = [(WARNING, InvalidOidType ''users'' 5)]
   \<and> check_id_type ''users'' [(''_id'', JDict [(''$oid'', JStr ''abc'')])] 6 = []
   \<and> check_id_type ''users'' [(''name'', JStr ''abc'')] 7 = []"
  using check_id_type_shape [of "''users''" "[(''_id'', JStr ''abc'')]" 4]
    check_id_type_shape [of "''users''" "[(''_id'', JDict [(''$oid'', JInt 123)])]" 5]
    check_id_type_shape [of "''users''" "[(''_id'', JDict [(''$oid'', JStr ''abc'')])]" 6]
    check_id_type_shape [of "''users''" "[(''name'', JStr ''abc'')]" 7]
  by (simp add: wrapped_identifier_def has_key_def)

section \<open>Boolean fields in the field-type check\<close>

text \<open>
  C9. In the loop of \<^verbatim>\<open>check_field_types\<close> a boolean field goes to
  \<^verbatim>\<open>check_negative_numeric_fields\<close> (a \<^verbatim>\<open>bool\<close> is an \<^verbatim>\<open>int\<close>), which logs nothing for
  it, whatever the key: neither \<^verbatim>\<open>True\<close> nor \<^verbatim>\<open>False\<close> is below zero. So a boolean field
  produces no finding at all: no date finding, no empty-list warning, no null warning.
\<close>

theorem boolean_field_dispatch:
  "check_field fromtimestamp ent item index (key, JBool b)
     = (check_negative_numeric_fields ent key (JBool b) index, None)
   \<and> check_negative_numeric_fields ent key (JBool b) index = []"
  by (simp add: check_field_def check_negative_numeric_fields_def)

theorem boolean_field_dispatch_witness:
  "check_field (\<lambda>t. Inl ValueError) ''receipts'' [(''priceAdjusted'', JBool False)] 0
     (''priceAdjusted'', JBool False) = ([], None)"
  using boolean_field_dispatch
    [of "\<lambda>t. Inl ValueError" "''receipts''" "[(''priceAdjusted'', JBool False)]" 0 "''priceAdjusted''" False]
  by simp

section \<open>Duplicate identifiers\<close>

text \<open>Python's \<^verbatim>\<open>==\<close> on hashable values is an equivalence; on strings it is equality.\<close>

lemma py_eq_refl: "py_eq v v"
  by (simp add: py_eq_def split: option.splits)

lemma py_eq_sym: "py_eq a b \<Longrightarrow> py_eq b a"
  by (auto simp: py_eq_def split: option.splits)

lemma py_eq_trans: "py_eq a b \<Longrightarrow> py_eq b c \<Longrightarrow> py_eq a c"
  by (auto simp: py_eq_def split: option.splits)

lemma py_eq_str: "py_eq (JStr s) v \<longleftrightarrow> v = JStr s"
  by (auto simp: py_eq_def split: option.splits)

text \<open>Neither the comprehension nor the counter raises on identifiers with hashable ids.\<close>

lemma oid_values_inner:
  "list_all hashable_oid ids \<Longrightarrow>
     oid_values ids = Inr (inner_values ids) \<and> list_all hashable (inner_values ids)"
proof (induction ids)
  case Nil
  then show ?case by (simp add: inner_values_def)
next
  case (Cons item rest)
  then show ?case
    by (cases item)
       (auto simp: inner_values_def hashable_oid_def oid_of_def getitem_def
             split: option.splits)
qed

lemma Counter_foldl: "list_all hashable vs \<Longrightarrow> Counter c vs = Inr (foldl count_incr c vs)"
  by (induction vs arbitrary: c) auto

text \<open>The keys in first-seen order: what one more value does to them.\<close>

lemma first_seen_Nil [simp]: "first_seen [] = []"
  by (simp add: first_seen_def)

lemma first_seen_snoc:
  "first_seen (vs @ [v]) =
     (if list_ex (\<lambda>w. py_eq w v) (first_seen vs) then first_seen vs else first_seen vs @ [v])"
  by (simp add: first_seen_def)

lemma frequency_snoc: "frequency k (vs @ [v]) = frequency k vs + (if py_eq k v then 1 else 0)"
  by (simp add: frequency_def)

lemma first_seen_covers: "v \<in> set vs \<Longrightarrow> \<exists>k \<in> set (first_seen vs). py_eq k v"
proof (induction vs rule: rev_induct)
  case Nil
  then show ?case by simp
next
  case (snoc x xs)
  then show ?case
    by (auto simp: first_seen_snoc list_ex_iff intro: py_eq_refl)
qed

lemma first_seen_subset: "set (first_seen vs) \<subseteq> set vs"
  by (induction vs rule: rev_induct) (auto simp: first_seen_snoc)

lemma first_seen_distinct:
  "first_seen vs = ks @ k # ks' \<Longrightarrow> k' \<in> set ks \<Longrightarrow> \<not> py_eq k' k"
proof (induction vs arbitrary: ks ks' rule: rev_induct)
  case Nil
  then show ?case by simp
next
  case outer: (snoc x xs)
  show ?case
  proof (cases "list_ex (\<lambda>w. py_eq w x) (first_seen xs)")
    case True
    with outer show ?thesis by (simp add: first_seen_snoc)
  next
    case False
    with outer.prems have eq: "first_seen xs @ [x] = ks @ k # ks'"
      by (simp add: first_seen_snoc)
    show ?thesis
    proof (cases ks' rule: rev_cases)
      case Nil
      with eq have "first_seen xs = ks" "x = k" by auto
      with False outer.prems(2) show ?thesis by (auto simp: list_ex_iff)
    next
      case (snoc ys y)
      with eq have "first_seen xs = ks @ k # ys" by simp
      from outer.IH [OF this outer.prems(2)] show ?thesis .
    qed
  qed
qed

text \<open>One step of the counter, on keys that are pairwise different.\<close>

lemma count_incr_miss:
  "\<not> list_ex (\<lambda>k. py_eq k v) (map fst c) \<Longrightarrow> count_incr c v = c @ [(v, 1)]"
  by (induction c) auto

lemma count_incr_hit:
  "count_incr (map (\<lambda>k. (k, f k)) (ks @ k # ks')) v
     = map (\<lambda>k. (k, f k)) ks @ (k, f k + 1) # map (\<lambda>k. (k, f k)) ks'"
  if "py_eq k v" and "\<And>k'. k' \<in> set ks \<Longrightarrow> \<not> py_eq k' v"
  using that by (induction ks) auto

lemma tally_Nil: "tally [] = []"
  by (simp add: tally_def)

lemma tally_snoc: "tally (vs @ [v]) = count_incr (tally vs) v"
proof (cases "list_ex (\<lambda>w. py_eq w v) (first_seen vs)")
  case False
  then have none: "\<And>w. w \<in> set vs \<Longrightarrow> \<not> py_eq w v"
    using first_seen_covers py_eq_trans by (fastforce simp: list_ex_iff)
  then have f0: "frequency v vs = 0"
    using py_eq_sym by (auto simp: frequency_def filter_empty_conv)
  have keep: "\<And>k. k \<in> set (first_seen vs) \<Longrightarrow> frequency k (vs @ [v]) = frequency k vs"
    using False by (auto simp: frequency_snoc list_ex_iff)
  have "tally (vs @ [v]) = tally vs @ [(v, 1)]"
    using False f0 keep by (simp add: tally_def first_seen_snoc frequency_snoc py_eq_refl)
  moreover have "count_incr (tally vs) v = tally vs @ [(v, 1)]"
    using False by (intro count_incr_miss) (simp add: tally_def comp_def)
  ultimately show ?thesis by simp
next
  case True
  then obtain k where k: "k \<in> set (first_seen vs)" "py_eq k v"
    by (auto simp: list_ex_iff)
  then obtain ks ks' where split: "first_seen vs = ks @ k # ks'"
    by (auto simp: in_set_conv_decomp)
  have before: "\<And>k'. k' \<in> set ks \<Longrightarrow> \<not> py_eq k' v"
    using first_seen_distinct [OF split] k(2) py_eq_sym py_eq_trans by blast
  have after: "\<And>k'. k' \<in> set ks' \<Longrightarrow> \<not> py_eq k' v"
  proof
    fix k' assume k': "k' \<in> set ks'" and e: "py_eq k' v"
    then obtain ys ys' where "ks' = ys @ k' # ys'" by (auto simp: in_set_conv_decomp)
    with split have "first_seen vs = (ks @ k # ys) @ k' # ys'" by simp
    from first_seen_distinct [OF this, of k] have "\<not> py_eq k k'" by simp
    with e k(2) py_eq_sym py_eq_trans show False by blast
  qed
  have "tally (vs @ [v]) = map (\<lambda>k. (k, frequency k (vs @ [v]))) (ks @ k # ks')"
    using True split by (simp add: tally_def first_seen_snoc)
  also have "\<dots> = map (\<lambda>k. (k, frequency k vs)) ks @ (k, frequency k vs + 1)
                  # map (\<lambda>k. (k, frequency k vs)) ks'"
    using before after k(2) by (simp add: frequency_snoc)
  also have "\<dots> = count_incr (map (\<lambda>k. (k, frequency k vs)) (ks @ k # ks')) v"
    using count_incr_hit [OF k(2) before, of ks "\<lambda>k. frequency k vs" ks'] by simp
  finally show ?thesis by (simp add: tally_def split)
qed

lemma foldl_count_incr: "foldl count_incr [] vs = tally vs"
  by (induction vs rule: rev_induct) (simp_all add: tally_Nil tally_snoc)

lemma duplicates_of_counts:
  "map fst (filter (\<lambda>(oid, freq). freq > 1) (map (\<lambda>k. (k, f k)) ks))
     = filter (\<lambda>v. 1 < f v) ks"
  by (induction ks) auto

lemma duplicates_of_tally:
  "map fst (filter (\<lambda>(oid, freq). freq > 1) (tally vs))
     = filter (\<lambda>v. 1 < frequency v vs) (first_seen vs)"
  unfolding tally_def by (rule duplicates_of_counts)

lemma find_duplicates_tally:
  assumes "list_all hashable_oid ids"
  shows "find_duplicates ids =
           Inr (filter (\<lambda>v. 1 < frequency v (inner_values ids)) (first_seen (inner_values ids)))"
proof -
  from oid_values_inner [OF assms]
  have vs: "oid_values ids = Inr (inner_values ids)" and h: "list_all hashable (inner_values ids)"
    by simp_all
  have "find_duplicates ids
          = Inr (map fst (filter (\<lambda>(oid, freq). freq > 1) (tally (inner_values ids))))"
    by (simp add: find_duplicates_def vs Counter_foldl [OF h] foldl_count_incr)
  then show ?thesis by (simp only: duplicates_of_tally)
qed

lemma inner_values_all:
  "list_all hashable_oid ids \<Longrightarrow> map oid_of ids = map Some (inner_values ids)"
  by (induction ids) (auto simp: inner_values_def hashable_oid_def split: option.splits)

text \<open>
  C3, as stated, fails: a mapping that contains \<^verbatim>\<open>$oid\<close> may hold a list or a mapping
  under it, and such a value cannot be a key of the \<^verbatim>\<open>Counter\<close>. On
  \<^verbatim>\<open>[{"$oid": []}, {"$oid": []}]\<close> the function raises \<^verbatim>\<open>TypeError\<close> instead of
  returning.
\<close>

theorem find_duplicates_unhashable:
  "list_all (\<lambda>item. is_dict item \<and> has_key (items item) ''$oid'')
     [JDict [(''$oid'', JList [])], JDict [(''$oid'', JList [])]]
   \<and> find_duplicates [JDict [(''$oid'', JList [])], JDict [(''$oid'', JList [])]] = Inl TypeError"
  by (simp add: find_duplicates_def getitem_def has_key_def)

text \<open>
  C3, amended. For every list of mappings each containing the key \<^verbatim>\<open>$oid\<close> with a
  hashable value (a string, as in a wrapped identifier, or a number, a boolean or null),
  \<^verbatim>\<open>find_duplicates\<close> returns exactly the inner values whose frequency in the list exceeds
  one, each once, in first-seen order; values are compared as Python compares dict keys, which
  is equality on strings. On a list with no repeated value it returns the empty list. (The
  example of the claim is the witness.)
\<close>

theorem find_duplicates_frequency:
  assumes "list_all hashable_oid ids"
  shows "find_duplicates ids =
           Inr (filter (\<lambda>v. 1 < frequency v (inner_values ids)) (first_seen (inner_values ids)))
         \<and> (list_all (\<lambda>v. frequency v (inner_values ids) \<le> 1) (inner_values ids)
              \<longrightarrow> find_duplicates ids = Inr [])"
proof -
  let ?vs = "inner_values ids"
  have eq: "find_duplicates ids = Inr (filter (\<lambda>v. 1 < frequency v ?vs) (first_seen ?vs))"
    by (rule find_duplicates_tally [OF assms])
  have "filter (\<lambda>v. 1 < frequency v ?vs) (first_seen ?vs) = []"
    if "list_all (\<lambda>v. frequency v ?vs \<le> 1) ?vs"
    using that first_seen_subset [of ?vs] by (fastforce simp: filter_empty_conv list_all_iff)
  with eq show ?thesis by simp
qed

theorem find_duplicates_frequency_witness:
  "find_duplicates [JDict [(''$oid'', JStr ''1'')], JDict [(''$oid'', JStr ''2'')],
                    JDict [(''$oid'', JStr ''1'')]] = Inr [JStr ''1'']
   \<and> find_duplicates [JDict [(''$oid'', JStr ''1'')], JDict [(''$oid'', JStr ''2'')]] = Inr []"
proof -
  let ?a = "[JDict [(''$oid'', JStr ''1'')], JDict [(''$oid'', JStr ''2'')],
             JDict [(''$oid'', JStr ''1'')]]"
  let ?b = "[JDict [(''$oid'', JStr ''1'')], JDict [(''$oid'', JStr ''2'')]]"
  have a: "list_all hashable_oid ?a" by (simp add: hashable_oid_def oid_of_def)
  have b: "list_all hashable_oid ?b" by (simp add: hashable_oid_def oid_of_def)
  from find_duplicates_frequency [OF a] find_duplicates_frequency [OF b]
  show ?thesis
    by (simp add: inner_values_def oid_of_def first_seen_def frequency_def py_eq_def)
qed

section \<open>The orchestrator on an unset or empty collection\<close>

text \<open>
  C10. When \<^verbatim>\<open>check_json_quality\<close> is called before any data has been loaded
  (\<^verbatim>\<open>self.data\<close> is still \<^verbatim>\<open>None\<close>), it returns at once: no exception, no finding, no
  completion notice, the same outcome as on the empty collection.
\<close>

theorem unset_collection:
  "data self = None \<Longrightarrow>
     check_json_quality flt fromtimestamp self = (self, [], None)
     \<and> snd (check_json_quality flt fromtimestamp self)
         = snd (check_json_quality flt fromtimestamp (self\<lparr>data := Some []\<rparr>))"
  by (simp add: check_json_quality_def)

theorem unset_collection_witness:
  "data \<lparr>file_path = ''data/users.json'', data = None, entity = ''users''\<rparr> = None
   \<and> check_json_quality (\<lambda>s. None) (\<lambda>t. Inl ValueError)
        \<lparr>file_path = ''data/users.json'', data = None, entity = ''users''\<rparr>
       = (\<lparr>file_path = ''data/users.json'', data = None, entity = ''users''\<rparr>, [], None)"
  using unset_collection [of "\<lparr>file_path = ''data/users.json'', data = None, entity = ''users''\<rparr>"
      "\<lambda>s. None" "\<lambda>t. Inl ValueError"]
  by simp

text \<open>
  C7. When loading succeeds with an empty collection, the emptiness is logged by
  \<^verbatim>\<open>load_data\<close> as a warning and nothing is raised; \<^verbatim>\<open>check_json_quality\<close> then returns at
  once with an empty log: no per-record check, no id-uniqueness check and no completion
  notice has run, and no exception is raised.
\<close>

theorem empty_collection:
  assumes "load_data f self = (self', findings, None)" and "data self' = Some []"
  shows "findings = [(WARNING, FileEmpty)]
         \<and> check_json_quality flt fromtimestamp self' = (self', [], None)"
  using assms
  by (auto simp: load_data_def check_json_quality_def split: json_file.splits sum.splits if_splits)

theorem empty_collection_witness:
  "load_data (Lines []) \<lparr>file_path = ''data/users.json'', data = None, entity = ''users''\<rparr>
     = (\<lparr>file_path = ''data/users.json'', data = Some [], entity = ''users''\<rparr>,
        [(WARNING, FileEmpty)], None)
   \<and> check_json_quality (\<lambda>s. None) (\<lambda>t. Inl ValueError)
        \<lparr>file_path = ''data/users.json'', data = Some [], entity = ''users''\<rparr>
       = (\<lparr>file_path = ''data/users.json'', data = Some [], entity = ''users''\<rparr>, [], None)"
proof -
  let ?c = "\<lparr>file_path = ''data/users.json'', data = None, entity = ''users''\<rparr>"
  let ?c' = "\<lparr>file_path = ''data/users.json'', data = Some [], entity = ''users''\<rparr>"
  have l: "load_data (Lines []) ?c = (?c', [(WARNING, FileEmpty)], None)"
    by (simp add: load_data_def)
  have d: "data ?c' = Some []" by simp
  from empty_collection [OF l d, of "\<lambda>s. None" "\<lambda>t. Inl ValueError"] l show ?thesis by simp
qed

section \<open>Does the full check run to completion?\<close>

text \<open>
  On a collection of mappings it does when no date conversion raises an exception that the
  date-field check leaves uncaught and every \<^verbatim>\<open>_id\<close> is a mapping with a hashable
  \<^verbatim>\<open>$oid\<close>: then the id-uniqueness check raises nothing either.
\<close>

lemma check_id_uniqueness_returns:
  assumes "list_all hashable_oid (List.map_filter (\<lambda>item. map_of item ''_id'') records)"
  shows "snd (check_id_uniqueness ent records expected_keys) = None"
  using find_duplicates_tally [OF assms]
  by (simp add: check_id_uniqueness_def)

lemma check_json_quality_completes:
  assumes "data self = Some (first # rest)"
    and "snd (check_items flt fromtimestamp (entity self) (first # rest) 0 (set (map fst first)))
           = None"
    and "list_all hashable_oid (List.map_filter (\<lambda>item. map_of item ''_id'') (first # rest))"
  shows "\<exists>findings. check_json_quality flt fromtimestamp self
           = (self, findings @ [(INFO, Completed)], None)"
proof -
  let ?items = "check_items flt fromtimestamp (entity self) (first # rest) 0 (set (map fst first))"
  let ?ids = "check_id_uniqueness (entity self) (first # rest) (set (map fst first))"
  have "snd ?ids = None"
    by (rule check_id_uniqueness_returns [OF assms(3)])
  with assms(2)
  have run: "and_then ?items (and_then ?ids ([(INFO, Completed)], None))
               = ((fst ?items @ fst ?ids) @ [(INFO, Completed)], None)"
    by (simp add: and_then_def del: check_items.simps)
  have "check_json_quality flt fromtimestamp self
          = (self, fst (and_then ?items (and_then ?ids ([(INFO, Completed)], None))),
             snd (and_then ?items (and_then ?ids ([(INFO, Completed)], None))))"
    using assms(1) by (simp add: check_json_quality_def Let_def del: check_items.simps)
  then have "check_json_quality flt fromtimestamp self
          = (self, (fst ?items @ fst ?ids) @ [(INFO, Completed)], None)"
    by (simp only: run fst_conv snd_conv)
  then show ?thesis by blast
qed

text \<open>
  C1. A malformed identifier is fatal. \<^verbatim>\<open>check_id_type\<close> logs it as a warning, but
  \<^verbatim>\<open>check_id_uniqueness\<close> then hands every \<^verbatim>\<open>_id\<close> to \<^verbatim>\<open>find_duplicates\<close>, whatever
  its shape: on the one-record collection \<^verbatim>\<open>{"_id": 12345}\<close> the subscript
  \<^verbatim>\<open>item["$oid"]\<close> raises \<^verbatim>\<open>TypeError\<close>, on \<^verbatim>\<open>{"_id": {"id": 7}}\<close> it raises
  \<^verbatim>\<open>KeyError\<close>, and the run ends without the completion notice.
\<close>

theorem malformed_id_raises:
  "check_json_quality flt fromtimestamp
     \<lparr>file_path = ''data/brands.json'', data = Some [[(''_id'', JInt 12345)]],
      entity = ''brands''\<rparr>
   = (\<lparr>file_path = ''data/brands.json'', data = Some [[(''_id'', JInt 12345)]],
       entity = ''brands''\<rparr>,
      [(INFO, NoNegativeValues ''brands''), (WARNING, InvalidIdType ''brands'' 0)],
      Some TypeError)
   \<and> check_json_quality flt fromtimestamp
     \<lparr>file_path = ''data/brands.json'', data = Some [[(''_id'', JDict [(''id'', JInt 7)])]],
      entity = ''brands''\<rparr>
   = (\<lparr>file_path = ''data/brands.json'', data = Some [[(''_id'', JDict [(''id'', JInt 7)])]],
       entity = ''brands''\<rparr>,
      [(INFO, NoNegativeValues ''brands''), (WARNING, InvalidIdType ''brands'' 0)],
      Some KeyError)"
  by (simp add: check_json_quality_def check_items.simps check_item_def
          check_negative_values_in_item_def and_then_def
          check_schema_consistency_def check_field_types_def check_field_def check_id_type_def
          check_id_uniqueness_def find_duplicates_def getitem_def has_key_def
          check_negative_numeric_fields_def new_path_key_def)

end
